theory Spec2Isabelle
  imports Complex_Main "HOL-Library.Word"
begin

section \<open>Token-gated weather access: the backend, the agent and the marketplace contract\<close>

text \<open>
  A shallow embedding of three parts of the repository:
  \<^item> \<^verbatim>\<open>backend/main.py\<close>: the FastAPI route \<^verbatim>\<open>GET /weather\<close> with its wallet
    validation, its balance check and its upstream fetch;
  \<^item> \<^verbatim>\<open>agent/agent.py\<close>: the class \<^verbatim>\<open>WeatherAgent\<close> with its counters, its purchase
    and its retry loop;
  \<^item> \<^verbatim>\<open>smart_contracts/weather_marketplace/contract.py\<close>: the ARC4 contract.

  Python exceptions are values of the type \<open>exn\<close>; a call that may raise returns
  \<open>exn + 'a\<close> with \<open>Inl\<close> for the exception. Logging is not modelled: no logger call of
  the source can raise on the values that reach it. Python floats that come from
  \<^verbatim>\<open>amount / 1_000_000\<close> are modelled as exact rationals: both thresholds the source
  compares them with (\<^verbatim>\<open>5.0\<close> and \<^verbatim>\<open>1.1\<close>) give the same answer on the correctly
  rounded quotient of an integer number of microAlgos and 10^6 as on the exact one,
  because the nearest quotients are 10^-6 away from the threshold or equal to it (a
  ledger amount is below 2^64, far from the range where the division overflows).
\<close>

subsection \<open>Exceptions and HTTP error bodies\<close>

text \<open>
  The \<^verbatim>\<open>details\<close> dictionary of the 403 body. \<^verbatim>\<open>contract_id\<close> is
  \<^verbatim>\<open>str(MARKETPLACE_APP_ID)\<close>; the model keeps the number that the text renders.
\<close>

datatype error_details =
  Error_details (wallet_address: string) (required_token_type: string)
    (contract_id: int) (token_price_algo: int) (purchase_endpoint: string)

text \<open>
  The \<^verbatim>\<open>detail\<close> of an \<^verbatim>\<open>HTTPException\<close>: the dictionary
  \<^verbatim>\<open>{"success": ..., "error": {"code": ..., "message": ..., "details": ...}}\<close>
  or a plain string.
\<close>

datatype detail =
  Detail_error (success_flag: bool) (code: string) (message: string)
    (details: "error_details option")
| Detail_text string

datatype exn =
  HTTPException int detail
| RequestException
| Exception string

subsection \<open>The ledger's account record\<close>

record asset =
  asset_id :: int
  asset_amount :: int

text \<open>
  The dictionary \<^verbatim>\<open>algod_client.account_info(address)\<close> returns: \<^verbatim>\<open>"amount"\<close> in
  microAlgos, and \<^verbatim>\<open>"assets"\<close>, which may be absent (the source reads it with
  \<^verbatim>\<open>.get("assets", [])\<close>).
\<close>

record account_info =
  amount :: int
  assets :: "asset list option"

subsection \<open>The backend: data\<close>

record WeatherData =
  city :: string
  country :: string
  temperature :: rat
  feels_like :: rat
  humidity :: int
  pressure :: rat
  description :: string
  wind_speed :: rat
  wind_direction :: int
  visibility :: int
  uv_index :: "int option"

text \<open>
  Times are microseconds since the epoch; \<^verbatim>\<open>isoformat() + "Z"\<close> is a rendering of
  the number and is not modelled.
\<close>

record TokenInfo =
  token_id :: int
  remaining_time_seconds :: int
  expires_at :: int

record WeatherResponse =
  success :: bool
  data :: WeatherData
  token_info :: TokenInfo
  timestamp :: int

text \<open>
  The standard dictionary the three provider functions return and
  \<^verbatim>\<open>format_weather_data\<close> reads with \<^verbatim>\<open>.get\<close>: every key may be absent. The values
  are taken to have the types the providers document.
\<close>

datatype main_dict =
  Main_dict (main_temp: "rat option") (main_feels_like: "rat option")
    (main_humidity: "int option") (main_pressure: "rat option")

datatype wind_dict = Wind_dict (wind_speed_key: "rat option") (wind_deg: "int option")

record raw_weather =
  raw_name :: "string option"
  raw_sys :: "string option option"
  raw_main :: "main_dict option"
  raw_weather_list :: "string option list option"
  raw_wind :: "wind_dict option"
  raw_visibility :: "int option"

text \<open>
  The module-level configuration of the backend, read once from the environment, and the
  two functions of the \<^verbatim>\<open>algosdk.encoding\<close> library that the wallet validation
  calls. The library is not part of the repository, so both are parameters.
\<close>

record config =
  WEATHER_API_PROVIDER :: string
  OPENWEATHER_API_KEY :: string
  WEATHERAPI_KEY :: string
  WEATHER_ASA_ID :: int
  MARKETPLACE_APP_ID :: int
  decode_address :: "string \<Rightarrow> exn + string"
  encode_address :: "string \<Rightarrow> exn + string"

text \<open>
  What the backend sees of the outside during one request: the ledger node's answer to
  \<^verbatim>\<open>account_info\<close>, each weather provider's answer for a city (the HTTP exchange and
  the reshaping of its JSON, up to the first exception), and the clock, whose \<open>k\<close>-th
  reading during the request is \<open>utcnow k\<close>.
\<close>

record outside =
  algod_account_info :: "string \<Rightarrow> exn + account_info"
  open_meteo :: "string \<Rightarrow> exn + raw_weather"
  openweather :: "string \<Rightarrow> exn + raw_weather"
  weatherapi :: "string \<Rightarrow> exn + raw_weather"
  utcnow :: "nat \<Rightarrow> int"

text \<open>The calls that leave the backend, logged in the order they are made.\<close>

datatype backend_call =
  Ledger_account_info string
| Upstream_fetch string string

text \<open>
  The HTTP answer of the route: the 200 body, or the \<^verbatim>\<open>JSONResponse\<close> the exception
  handler builds, whose content is the detail dictionary or \<^verbatim>\<open>{"error": str(detail)}\<close>.
\<close>

datatype content = Content_detail detail | Content_error string

datatype response = Response_200 WeatherResponse | JSONResponse int content

subsection \<open>The backend: functions\<close>

definition validate_wallet_address :: "config \<Rightarrow> string \<Rightarrow> bool" where
  "validate_wallet_address cfg wallet =
     (case decode_address cfg wallet of
        Inl e \<Rightarrow> False
      | Inr raw \<Rightarrow> (case encode_address cfg raw of Inl e \<Rightarrow> False | Inr a \<Rightarrow> True))"

definition balance_algos_of :: "account_info \<Rightarrow> rat" where
  "balance_algos_of info = of_int (amount info) / 1000000"

text \<open>The body of the \<^verbatim>\<open>try\<close> block of \<^verbatim>\<open>check_token_ownership\<close>.\<close>

definition check_token_ownership_try :: "outside \<Rightarrow> string \<Rightarrow> exn + bool" where
  "check_token_ownership_try out wallet =
     (case algod_account_info out wallet of
        Inl e \<Rightarrow> Inl e
      | Inr info \<Rightarrow>
          (let balance_algos = balance_algos_of info;
               has_token = (balance_algos \<ge> 5)
           in Inr has_token))"

text \<open>The whole function: \<^verbatim>\<open>except Exception\<close> turns every exception into False.\<close>

definition check_token_ownership :: "outside \<Rightarrow> string \<Rightarrow> bool \<times> backend_call list" where
  "check_token_ownership out wallet =
     (case check_token_ownership_try out wallet of
        Inl e \<Rightarrow> (False, [Ledger_account_info wallet])
      | Inr has_token \<Rightarrow> (has_token, [Ledger_account_info wallet]))"

text \<open>
  The three provider functions. Each maps a \<^verbatim>\<open>RequestException\<close> to the 502
  \<^verbatim>\<open>HTTPException\<close> and lets every other exception pass; the two keyed providers raise
  a 500 before any request when their key is empty.
\<close>

definition upstream_unavailable :: exn where
  "upstream_unavailable = HTTPException 502 (Detail_text ''Weather service unavailable'')"

definition get_weather_from_open_meteo ::
  "outside \<Rightarrow> string \<Rightarrow> (exn + raw_weather) \<times> backend_call list" where
  "get_weather_from_open_meteo out c =
     (case open_meteo out c of
        Inl RequestException \<Rightarrow> (Inl upstream_unavailable, [Upstream_fetch ''open-meteo'' c])
      | Inl e \<Rightarrow> (Inl e, [Upstream_fetch ''open-meteo'' c])
      | Inr raw \<Rightarrow> (Inr raw, [Upstream_fetch ''open-meteo'' c]))"

definition get_weather_from_openweather ::
  "config \<Rightarrow> outside \<Rightarrow> string \<Rightarrow> (exn + raw_weather) \<times> backend_call list" where
  "get_weather_from_openweather cfg out c =
     (if OPENWEATHER_API_KEY cfg = []
      then (Inl (HTTPException 500 (Detail_text ''OpenWeather API key not configured'')), [])
      else
        (case openweather out c of
           Inl RequestException \<Rightarrow> (Inl upstream_unavailable, [Upstream_fetch ''openweather'' c])
         | Inl e \<Rightarrow> (Inl e, [Upstream_fetch ''openweather'' c])
         | Inr raw \<Rightarrow> (Inr raw, [Upstream_fetch ''openweather'' c])))"

definition get_weather_from_weatherapi ::
  "config \<Rightarrow> outside \<Rightarrow> string \<Rightarrow> (exn + raw_weather) \<times> backend_call list" where
  "get_weather_from_weatherapi cfg out c =
     (if WEATHERAPI_KEY cfg = []
      then (Inl (HTTPException 500 (Detail_text ''WeatherAPI key not configured'')), [])
      else
        (case weatherapi out c of
           Inl RequestException \<Rightarrow> (Inl upstream_unavailable, [Upstream_fetch ''weatherapi'' c])
         | Inl e \<Rightarrow> (Inl e, [Upstream_fetch ''weatherapi'' c])
         | Inr raw \<Rightarrow> (Inr raw, [Upstream_fetch ''weatherapi'' c])))"

definition get_weather_data ::
  "config \<Rightarrow> outside \<Rightarrow> string \<Rightarrow> (exn + raw_weather) \<times> backend_call list" where
  "get_weather_data cfg out c =
     (if WEATHER_API_PROVIDER cfg = ''open-meteo'' then get_weather_from_open_meteo out c
      else if WEATHER_API_PROVIDER cfg = ''openweather'' then get_weather_from_openweather cfg out c
      else if WEATHER_API_PROVIDER cfg = ''weatherapi'' then get_weather_from_weatherapi cfg out c
      else get_weather_from_open_meteo out c)"

text \<open>
  \<^verbatim>\<open>format_weather_data\<close>: every \<^verbatim>\<open>.get\<close> with its default;
  \<^verbatim>\<open>raw_data.get("weather", [{}])[0]\<close> raises IndexError on an empty list.
\<close>

definition format_weather_data :: "raw_weather \<Rightarrow> string \<Rightarrow> exn + WeatherData" where
  "format_weather_data raw_data c =
     (let main = (case raw_main raw_data of None \<Rightarrow> Main_dict None None None None | Some m \<Rightarrow> m);
          weather_list = (case raw_weather_list raw_data of None \<Rightarrow> [None] | Some l \<Rightarrow> l);
          wind = (case raw_wind raw_data of None \<Rightarrow> Wind_dict None None | Some w \<Rightarrow> w);
          sys = (case raw_sys raw_data of None \<Rightarrow> None | Some s \<Rightarrow> s)
      in case weather_list of
           [] \<Rightarrow> Inl (Exception ''IndexError'')
         | weather # rest \<Rightarrow>
             Inr \<lparr> city = (case raw_name raw_data of None \<Rightarrow> c | Some n \<Rightarrow> n),
                   country = (case sys of None \<Rightarrow> [] | Some k \<Rightarrow> k),
                   temperature = (case main_temp main of None \<Rightarrow> 0 | Some t \<Rightarrow> t),
                   feels_like = (case main_feels_like main of None \<Rightarrow> 0 | Some t \<Rightarrow> t),
                   humidity = (case main_humidity main of None \<Rightarrow> 0 | Some h \<Rightarrow> h),
                   pressure = (case main_pressure main of None \<Rightarrow> 0 | Some p \<Rightarrow> p),
                   description = (case weather of None \<Rightarrow> [] | Some d \<Rightarrow> d),
                   wind_speed = (case wind_speed_key wind of None \<Rightarrow> 0 | Some s \<Rightarrow> s),
                   wind_direction = (case wind_deg wind of None \<Rightarrow> 0 | Some d \<Rightarrow> d),
                   visibility = (case raw_visibility raw_data of None \<Rightarrow> 0 | Some v \<Rightarrow> v),
                   uv_index = None \<rparr>)"

text \<open>The registered handler for \<^verbatim>\<open>HTTPException\<close>.\<close>

fun http_exception_handler :: "int \<Rightarrow> detail \<Rightarrow> response" where
  "http_exception_handler status_code (Detail_text s) = JSONResponse status_code (Content_error s)"
| "http_exception_handler status_code d = JSONResponse status_code (Content_detail d)"

definition invalid_wallet_detail :: detail where
  "invalid_wallet_detail =
     Detail_error False ''INVALID_WALLET'' ''Invalid wallet address format'' None"

definition invalid_token_detail :: "config \<Rightarrow> string \<Rightarrow> detail" where
  "invalid_token_detail cfg wallet =
     Detail_error False ''INVALID_TOKEN''
       ''No valid weather access token found for this wallet''
       (Some (Error_details wallet ''OpenWeather Access Token'' (MARKETPLACE_APP_ID cfg) 10
                ''/marketplace/buy''))"

text \<open>
  The \<^verbatim>\<open>try\<close> block at the end of the route: an \<^verbatim>\<open>HTTPException\<close> is raised again
  (and answered by the handler), any other exception becomes the 500.
\<close>

definition fetch_weather ::
  "config \<Rightarrow> outside \<Rightarrow> string \<Rightarrow> response \<times> backend_call list" where
  "fetch_weather cfg out c =
     (case get_weather_data cfg out c of
        (Inl (HTTPException status d), calls) \<Rightarrow> (http_exception_handler status d, calls)
      | (Inl e, calls) \<Rightarrow>
          (http_exception_handler 500 (Detail_text ''Internal server error''), calls)
      | (Inr raw_weather, calls) \<Rightarrow>
          (case format_weather_data raw_weather c of
             Inl (HTTPException status d) \<Rightarrow> (http_exception_handler status d, calls)
           | Inl e \<Rightarrow>
               (http_exception_handler 500 (Detail_text ''Internal server error''), calls)
           | Inr weather_data \<Rightarrow>
               (Response_200
                  \<lparr> success = True,
                    data = weather_data,
                    token_info =
                      \<lparr> token_id = WEATHER_ASA_ID cfg,
                        remaining_time_seconds = 3600,
                        expires_at = (utcnow out 0 div 1000000) * 1000000 \<rparr>,
                    timestamp = utcnow out 1 \<rparr>,
                calls)))"

text \<open>The route \<^verbatim>\<open>GET /weather\<close>, with the calls it made.\<close>

definition get_weather ::
  "config \<Rightarrow> outside \<Rightarrow> string \<Rightarrow> string \<Rightarrow> response \<times> backend_call list" where
  "get_weather cfg out c wallet =
     (if \<not> validate_wallet_address cfg wallet
      then (http_exception_handler 400 invalid_wallet_detail, [])
      else
        (case check_token_ownership out wallet of
           (has_valid_token, calls1) \<Rightarrow>
             if \<not> has_valid_token
             then (http_exception_handler 403 (invalid_token_detail cfg wallet), calls1)
             else
               (case fetch_weather cfg out c of
                  (r, calls2) \<Rightarrow> (r, calls1 @ calls2))))"


text \<open>
  The decision a response carries: everything but the two clock readings (the
  \<^verbatim>\<open>expires_at\<close> and \<^verbatim>\<open>timestamp\<close> fields of the 200 body).
\<close>

datatype decision = Granted WeatherData int int | Denied int content

fun decision_of :: "response \<Rightarrow> decision" where
  "decision_of (Response_200 r) =
     Granted (data r) (token_id (token_info r)) (remaining_time_seconds (token_info r))"
| "decision_of (JSONResponse status c) = Denied status c"

subsection \<open>The marketplace contract\<close>

text \<open>
  The global state of \<^verbatim>\<open>WeatherMarketplace\<close>. \<^verbatim>\<open>UInt64\<close> is a 64-bit word whose
  addition fails the call on overflow instead of wrapping (the AVM rejects the
  transaction and the state stays as it was).
\<close>

record WeatherMarketplace =
  token_price :: "64 word"
  weather_asa_id :: "64 word"
  token_duration :: "64 word"
  total_tokens_sold :: "64 word"
  is_active :: bool

datatype abi_value = ARC4UInt64 "64 word" | ARC4Bool bool | ARC4String string | ARC4None

text \<open>The state \<^verbatim>\<open>__init__\<close> leaves when the application is created.\<close>

definition WeatherMarketplace_init :: WeatherMarketplace where
  "WeatherMarketplace_init =
     \<lparr> token_price = 10000000, weather_asa_id = 0, token_duration = 3600,
       total_tokens_sold = 0, is_active = True \<rparr>"

definition get_token_price :: "WeatherMarketplace \<Rightarrow> exn + abi_value \<times> WeatherMarketplace" where
  "get_token_price self = Inr (ARC4UInt64 (token_price self), self)"

definition get_weather_asa_id :: "WeatherMarketplace \<Rightarrow> exn + abi_value \<times> WeatherMarketplace" where
  "get_weather_asa_id self = Inr (ARC4UInt64 (weather_asa_id self), self)"

definition set_weather_asa_id ::
  "64 word \<Rightarrow> WeatherMarketplace \<Rightarrow> exn + abi_value \<times> WeatherMarketplace" where
  "set_weather_asa_id asa_id self = Inr (ARC4None, self\<lparr>weather_asa_id := asa_id\<rparr>)"

definition get_token_duration :: "WeatherMarketplace \<Rightarrow> exn + abi_value \<times> WeatherMarketplace" where
  "get_token_duration self = Inr (ARC4UInt64 (token_duration self), self)"

definition record_token_sale :: "WeatherMarketplace \<Rightarrow> exn + abi_value \<times> WeatherMarketplace" where
  "record_token_sale self =
     (if unat (total_tokens_sold self) + 1 < 2 ^ 64
      then (let self' = self\<lparr>total_tokens_sold := total_tokens_sold self + 1\<rparr>
            in Inr (ARC4UInt64 (total_tokens_sold self'), self'))
      else Inl (Exception ''overflow''))"

definition get_total_sales :: "WeatherMarketplace \<Rightarrow> exn + abi_value \<times> WeatherMarketplace" where
  "get_total_sales self = Inr (ARC4UInt64 (total_tokens_sold self), self)"

definition is_contract_active :: "WeatherMarketplace \<Rightarrow> exn + abi_value \<times> WeatherMarketplace" where
  "is_contract_active self = Inr (ARC4Bool (is_active self), self)"

definition get_contract_info :: "WeatherMarketplace \<Rightarrow> exn + abi_value \<times> WeatherMarketplace" where
  "get_contract_info self =
     Inr (ARC4String ''WeatherMarketplace v1.0 - Tokenized Weather API Access'', self)"

text \<open>The ABI methods of the contract, and the router that dispatches a call.\<close>

datatype abimethod =
  Get_token_price
| Get_weather_asa_id
| Set_weather_asa_id "64 word"
| Get_token_duration
| Record_token_sale
| Get_total_sales
| Is_contract_active
| Get_contract_info

fun call_method :: "abimethod \<Rightarrow> WeatherMarketplace \<Rightarrow> exn + abi_value \<times> WeatherMarketplace" where
  "call_method Get_token_price self = get_token_price self"
| "call_method Get_weather_asa_id self = get_weather_asa_id self"
| "call_method (Set_weather_asa_id asa_id) self = set_weather_asa_id asa_id self"
| "call_method Get_token_duration self = get_token_duration self"
| "call_method Record_token_sale self = record_token_sale self"
| "call_method Get_total_sales self = get_total_sales self"
| "call_method Is_contract_active self = is_contract_active self"
| "call_method Get_contract_info self = get_contract_info self"

text \<open>
  The states of the contract on chain: the created one, and the state after every call
  that did not fail.
\<close>

inductive contract_reachable :: "WeatherMarketplace \<Rightarrow> bool" where
  created: "contract_reachable WeatherMarketplace_init"
| called: "contract_reachable self \<Longrightarrow> call_method m self = Inr (r, self') \<Longrightarrow>
     contract_reachable self'"


subsection \<open>The agent: data\<close>

text \<open>A parsed JSON body, with Python's subscript on a string key and its truth value.\<close>

datatype json =
  JNull
| JBool bool
| JNum rat
| JStr string
| JArr "json list"
| JObj "(string \<times> json) list"

fun subscript :: "json \<Rightarrow> string \<Rightarrow> exn + json" where
  "subscript (JObj kvs) k =
     (case map_of kvs k of None \<Rightarrow> Inl (Exception ''KeyError'') | Some v \<Rightarrow> Inr v)"
| "subscript j k = Inl (Exception ''TypeError'')"

fun truthy :: "json \<Rightarrow> bool" where
  "truthy JNull = False"
| "truthy (JBool b) = b"
| "truthy (JNum r) = (r \<noteq> 0)"
| "truthy (JStr s) = (s \<noteq> [])"
| "truthy (JArr l) = (l \<noteq> [])"
| "truthy (JObj kvs) = (kvs \<noteq> [])"

text \<open>\<^verbatim>\<open>if weather_data:\<close> on an \<^verbatim>\<open>Optional[Dict]\<close>.\<close>

fun is_truthy :: "json option \<Rightarrow> bool" where
  "is_truthy None = False"
| "is_truthy (Some d) = truthy d"

text \<open>
  What \<^verbatim>\<open>requests.get\<close> returns: the status code and the result of
  \<^verbatim>\<open>response.json()\<close>, which raises on a body that is not JSON.
\<close>

record http_response =
  status_code :: int
  json_body :: "exn + json"

record suggested_params_t =
  min_fee :: int
  first_round :: int
  last_round :: int

record PaymentTxn =
  sender :: string
  sp :: suggested_params_t
  receiver :: string
  amt :: int
  txn_note :: string

record SignedTransaction =
  transaction :: PaymentTxn
  signing_key :: string

text \<open>
  Every call that leaves the agent, in the order it is made, and the return of each
  call of \<^verbatim>\<open>purchase_weather_token\<close> with its result (one entry per acquisition
  attempt).
\<close>

datatype agent_call =
  Call_account_info string
| Call_requests_get string string
| Call_suggested_params
| Call_send_transaction SignedTransaction
| Call_wait_for_confirmation string nat
| Call_sleep nat
| Return_purchase_weather_token bool

text \<open>
  The attributes of a \<^verbatim>\<open>WeatherAgent\<close> (the field \<^verbatim>\<open>weather_asa_id\<close> is named
  \<open>agent_weather_asa_id\<close> here: the contract has a field of the same name).
\<close>

record WeatherAgent =
  address :: string
  private_key :: string
  marketplace_app_id :: int
  agent_weather_asa_id :: int
  balance_algos :: rat
  owned_tokens :: "asset list"
  request_count :: int
  successful_requests :: int
  tokens_purchased :: int

text \<open>
  A run of the agent: its attributes, the state \<open>world\<close> of everything outside it
  (ledger, backend, clock) and the log of its calls.
\<close>

record 'w run = WeatherAgent +
  world :: 'w
  calls :: "agent_call list"

text \<open>
  The outside as the agent meets it: each call answers from the state of the world and
  may change it. \<open>wait_for_confirmation\<close> returns the value under
  \<^verbatim>\<open>"confirmed-round"\<close> of the confirmed transaction, \<open>None\<close> when the key is missing.
\<close>

record 'w env =
  account_info_call :: "string \<Rightarrow> 'w \<Rightarrow> (exn + account_info) \<times> 'w"
  requests_get :: "string \<Rightarrow> string \<Rightarrow> 'w \<Rightarrow> (exn + http_response) \<times> 'w"
  suggested_params :: "'w \<Rightarrow> (exn + suggested_params_t) \<times> 'w"
  send_transaction :: "SignedTransaction \<Rightarrow> 'w \<Rightarrow> (exn + string) \<times> 'w"
  wait_for_confirmation :: "string \<Rightarrow> nat \<Rightarrow> 'w \<Rightarrow> (exn + int option) \<times> 'w"
  sleep :: "nat \<Rightarrow> 'w \<Rightarrow> 'w"

subsection \<open>The agent: methods\<close>

definition logged :: "agent_call \<Rightarrow> 'w \<Rightarrow> 'w run \<Rightarrow> 'w run" where
  "logged ev w self = self\<lparr>world := w, calls := calls self @ [ev]\<rparr>"

definition time_sleep :: "'w env \<Rightarrow> nat \<Rightarrow> 'w run \<Rightarrow> 'w run" where
  "time_sleep env n self = logged (Call_sleep n) (sleep env n (world self)) self"

text \<open>
  \<^verbatim>\<open>_update_account_info\<close>: the whole body is under \<^verbatim>\<open>try\<close>; on an exception the
  attributes keep their old values.
\<close>

definition update_account_info :: "'w env \<Rightarrow> 'w run \<Rightarrow> 'w run" where
  "update_account_info env self =
     (case account_info_call env (address self) (world self) of
        (Inl e, w) \<Rightarrow> logged (Call_account_info (address self)) w self
      | (Inr info, w) \<Rightarrow>
          logged (Call_account_info (address self)) w
            (self\<lparr> balance_algos := of_int (amount info) / 1000000,
                   owned_tokens :=
                     filter (\<lambda>a. asset_id a = agent_weather_asa_id self \<and> asset_amount a > 0)
                       (case assets info of None \<Rightarrow> [] | Some l \<Rightarrow> l) \<rparr>))"

text \<open>
  \<^verbatim>\<open>__init__\<close>: the address and key come from the mnemonic or from a generated
  account (both outside the repository), the counters start at 0 and the account is read
  once.
\<close>

definition WeatherAgent_init ::
  "'w env \<Rightarrow> string \<Rightarrow> string \<Rightarrow> int \<Rightarrow> int \<Rightarrow> 'w \<Rightarrow> 'w run" where
  "WeatherAgent_init env addr key app_id asa_id w =
     update_account_info env
       \<lparr> address = addr, private_key = key, marketplace_app_id = app_id,
         agent_weather_asa_id = asa_id, balance_algos = 0, owned_tokens = [],
         request_count = 0, successful_requests = 0, tokens_purchased = 0,
         world = w, calls = [] \<rparr>"

definition has_valid_token :: "'w run \<Rightarrow> bool" where
  "has_valid_token self = (length (owned_tokens self) > 0)"

text \<open>
  \<^verbatim>\<open>WeatherAgent.get_weather\<close> (the backend's route has the same name). The counter
  of requests is incremented before the \<^verbatim>\<open>try\<close>; the counter of successes inside it,
  as soon as the status is 200 and before the body is read. In the 403 branch the body is
  read for the log only: whether that raises or not, the result is \<^verbatim>\<open>None\<close>.
\<close>

definition agent_get_weather :: "'w env \<Rightarrow> string \<Rightarrow> 'w run \<Rightarrow> json option \<times> 'w run" where
  "agent_get_weather env c self0 =
     (let self = self0\<lparr>request_count := request_count self0 + 1\<rparr> in
      case requests_get env c (address self) (world self) of
        (Inl e, w) \<Rightarrow> (None, logged (Call_requests_get c (address self)) w self)
      | (Inr response, w) \<Rightarrow>
          (let self1 = logged (Call_requests_get c (address self)) w self in
           if status_code response = 200 then
             (let self2 = self1\<lparr>successful_requests := successful_requests self1 + 1\<rparr> in
              case json_body response of
                Inl e \<Rightarrow> (None, self2)
              | Inr d \<Rightarrow>
                  (case subscript d ''data'' of
                     Inl e \<Rightarrow> (None, self2)
                   | Inr dd \<Rightarrow>
                       (case subscript dd ''temperature'' of
                          Inl e \<Rightarrow> (None, self2)
                        | Inr t \<Rightarrow> (Some d, self2))))
           else if status_code response = 403 then
             (case json_body response of
                Inl e \<Rightarrow> (None, self1)
              | Inr error_data \<Rightarrow> (None, self1))
           else (None, self1)))"

definition demo_marketplace_address :: string where
  "demo_marketplace_address = ''7ZUECA7HFLZTXENRV24SHLU4AVPUTMTTDUFUBNBD64C73F3UHRTHAIOF6Q''"

text \<open>
  The body of \<^verbatim>\<open>purchase_weather_token\<close>. The check of the balance reads the
  attribute \<^verbatim>\<open>self.balance_algos\<close> and stands before the \<^verbatim>\<open>try\<close>; every exception
  inside the \<^verbatim>\<open>try\<close> gives False. Building and signing the payment do not raise on the
  agent's own address and the constant receiver.
\<close>

definition purchase_body :: "'w env \<Rightarrow> 'w run \<Rightarrow> bool \<times> 'w run" where
  "purchase_body env self =
     (if balance_algos self < 11 / 10 then (False, self)
      else
        (case suggested_params env (world self) of
           (Inl e, w1) \<Rightarrow> (False, logged Call_suggested_params w1 self)
         | (Inr params, w1) \<Rightarrow>
             (let self1 = logged Call_suggested_params w1 self;
                  payment_txn = \<lparr> sender = address self1, sp = params,
                                  receiver = demo_marketplace_address, amt = 1000000,
                                  txn_note = ''Demo weather token purchase'' \<rparr>;
                  signed_txn = \<lparr> transaction = payment_txn, signing_key = private_key self1 \<rparr>
              in case send_transaction env signed_txn (world self1) of
                   (Inl e, w2) \<Rightarrow> (False, logged (Call_send_transaction signed_txn) w2 self1)
                 | (Inr txid, w2) \<Rightarrow>
                     (let self2 = logged (Call_send_transaction signed_txn) w2 self1 in
                      case wait_for_confirmation env txid 4 (world self2) of
                        (Inl e, w3) \<Rightarrow> (False, logged (Call_wait_for_confirmation txid 4) w3 self2)
                      | (Inr confirmed_round, w3) \<Rightarrow>
                          (let self3 = logged (Call_wait_for_confirmation txid 4) w3 self2 in
                           case confirmed_round of
                             None \<Rightarrow> (False, self3)
                           | Some r \<Rightarrow>
                               if r > 0 then
                                 (let self4 = self3\<lparr>tokens_purchased := tokens_purchased self3 + 1\<rparr>;
                                      self5 = time_sleep env 1 self4
                                  in (True, update_account_info env self5))
                               else (False, self3))))))"

text \<open>The method itself: the body, and the log entry of its return.\<close>

definition purchase_weather_token :: "'w env \<Rightarrow> 'w run \<Rightarrow> bool \<times> 'w run" where
  "purchase_weather_token env self =
     (case purchase_body env self of
        (ok, self') \<Rightarrow> (ok, logged (Return_purchase_weather_token ok) (world self') self'))"

definition fund_wallet_for_demo :: "'w run \<Rightarrow> bool \<times> 'w run" where
  "fund_wallet_for_demo self = (True, self)"

text \<open>\<^verbatim>\<open>range(max_attempts)\<close>: empty when the bound is not positive.\<close>

definition py_range :: "int \<Rightarrow> int list" where
  "py_range n = map int [0..<nat n]"

text \<open>The wait at the end of one pass of the loop.\<close>

definition wait_before_next :: "'w env \<Rightarrow> int \<Rightarrow> int \<Rightarrow> 'w run \<Rightarrow> 'w run" where
  "wait_before_next env max_attempts attempt self =
     (if attempt < max_attempts - 1 then time_sleep env 5 self else self)"

text \<open>
  The \<^verbatim>\<open>for attempt in range(max_attempts)\<close> loop of
  \<^verbatim>\<open>autonomous_weather_request\<close>, over the attempts still to run.
\<close>

fun purchase_loop ::
  "'w env \<Rightarrow> string \<Rightarrow> int \<Rightarrow> int list \<Rightarrow> 'w run \<Rightarrow> json option \<times> 'w run" where
  "purchase_loop env c max_attempts [] self = (None, self)"
| "purchase_loop env c max_attempts (attempt # rest) self =
     (case purchase_weather_token env self of
        (True, self1) \<Rightarrow>
          (case agent_get_weather env c (time_sleep env 2 self1) of
             (weather_data, self2) \<Rightarrow>
               if is_truthy weather_data then (weather_data, self2)
               else purchase_loop env c max_attempts rest
                      (wait_before_next env max_attempts attempt self2))
      | (False, self1) \<Rightarrow>
          purchase_loop env c max_attempts rest
            (wait_before_next env max_attempts attempt self1))"

definition autonomous_weather_request ::
  "'w env \<Rightarrow> string \<Rightarrow> int \<Rightarrow> 'w run \<Rightarrow> json option \<times> 'w run" where
  "autonomous_weather_request env c max_attempts self =
     (case agent_get_weather env c (update_account_info env self) of
        (weather_data, self1) \<Rightarrow>
          if is_truthy weather_data then (weather_data, self1)
          else purchase_loop env c max_attempts (py_range max_attempts) self1)"

text \<open>
  \<^verbatim>\<open>run_demo\<close>: one autonomous request per city. Reading
  \<^verbatim>\<open>result['data']['description']\<close> is outside every \<^verbatim>\<open>try\<close>, so a 200 body
  without that key ends the demo with the exception.
\<close>

definition read_result :: "json \<Rightarrow> exn + unit" where
  "read_result result =
     (case subscript result ''data'' of
        Inl e \<Rightarrow> Inl e
      | Inr d \<Rightarrow>
          (case subscript d ''temperature'' of
             Inl e \<Rightarrow> Inl e
           | Inr temp \<Rightarrow>
               (case subscript result ''data'' of
                  Inl e \<Rightarrow> Inl e
                | Inr d' \<Rightarrow>
                    (case subscript d' ''description'' of
                       Inl e \<Rightarrow> Inl e
                     | Inr desc \<Rightarrow> Inr ()))))"

fun run_demo_loop ::
  "'w env \<Rightarrow> nat \<Rightarrow> (nat \<times> string) list \<Rightarrow> 'w run \<Rightarrow> exn option \<times> 'w run" where
  "run_demo_loop env n [] self = (None, self)"
| "run_demo_loop env n ((i, c) # rest) self =
     (case autonomous_weather_request env c 3 self of
        (result, self1) \<Rightarrow>
          (case (case result of
                   None \<Rightarrow> Inr ()
                 | Some r \<Rightarrow> if truthy r then read_result r else Inr ()) of
             Inl e \<Rightarrow> (Some e, self1)
           | Inr u \<Rightarrow>
               run_demo_loop env n rest (if i < n then time_sleep env 3 self1 else self1)))"

definition default_cities :: "string list" where
  "default_cities = [''Berlin'', ''New York'', ''Tokyo'', ''London'', ''Sydney'']"

definition run_demo :: "'w env \<Rightarrow> string list option \<Rightarrow> 'w run \<Rightarrow> exn option \<times> 'w run" where
  "run_demo env cities self =
     (let cs = (case cities of None \<Rightarrow> default_cities | Some l \<Rightarrow> l)
      in run_demo_loop env (length cs) (enumerate 1 cs) self)"

text \<open>
  The operations on an agent: its public methods. \<^verbatim>\<open>get_address\<close>,
  \<^verbatim>\<open>has_valid_token\<close>, \<^verbatim>\<open>fund_wallet_for_demo\<close> and \<^verbatim>\<open>print_stats\<close> write no
  attribute and make no call.
\<close>

datatype agent_op =
  Op_update_account_info
| Op_get_weather string
| Op_purchase_weather_token
| Op_autonomous_weather_request string int
| Op_run_demo "string list option"
| Op_read_only

fun exec_op :: "'w env \<Rightarrow> agent_op \<Rightarrow> 'w run \<Rightarrow> 'w run" where
  "exec_op env Op_update_account_info self = update_account_info env self"
| "exec_op env (Op_get_weather c) self = snd (agent_get_weather env c self)"
| "exec_op env Op_purchase_weather_token self = snd (purchase_weather_token env self)"
| "exec_op env (Op_autonomous_weather_request c n) self =
     snd (autonomous_weather_request env c n self)"
| "exec_op env (Op_run_demo cities) self = snd (run_demo env cities self)"
| "exec_op env Op_read_only self = self"

text \<open>
  The states an agent can be in: the one \<^verbatim>\<open>__init__\<close> leaves, the state after any
  operation, and the same attributes in a world that moved on by itself.
\<close>

inductive agent_reachable :: "'w env \<Rightarrow> 'w run \<Rightarrow> bool" for env :: "'w env" where
  constructed: "agent_reachable env (WeatherAgent_init env addr key app_id asa_id w)"
| operated: "agent_reachable env self \<Longrightarrow> agent_reachable env (exec_op env op self)"
| world_moved: "agent_reachable env self \<Longrightarrow> agent_reachable env (self\<lparr>world := w\<rparr>)"

text \<open>
  The log entries a run added, the results of the acquisition attempts among them, and
  whether a transaction was submitted.
\<close>

definition new_calls :: "'w run \<Rightarrow> 'w run \<Rightarrow> agent_call list" where
  "new_calls self self' = drop (length (calls self)) (calls self')"

fun purchase_results :: "agent_call list \<Rightarrow> bool list" where
  "purchase_results [] = []"
| "purchase_results (Return_purchase_weather_token ok # evs) = ok # purchase_results evs"
| "purchase_results (ev # evs) = purchase_results evs"


subsection \<open>A closed system for concrete runs\<close>

text \<open>
  A backend configured for Open-Meteo, a ledger that holds one balance, and an agent
  whose HTTP requests are answered by the route above. The stand-in for the address
  codec accepts exactly the strings of 58 characters. The upstream knows London, reports
  Atlantis as not found and is unreachable for every other city.
\<close>

definition demo_config :: config where
  "demo_config =
     \<lparr> WEATHER_API_PROVIDER = ''open-meteo'', OPENWEATHER_API_KEY = [], WEATHERAPI_KEY = [],
       WEATHER_ASA_ID = 0, MARKETPLACE_APP_ID = 0,
       decode_address = (\<lambda>s. if length s = 58 then Inr s else Inl (Exception ''ValueError'')),
       encode_address = (\<lambda>b. Inr b) \<rparr>"

definition demo_london :: raw_weather where
  "demo_london =
     \<lparr> raw_name = Some ''London'', raw_sys = Some (Some ''GB''),
       raw_main = Some (Main_dict (Some 12) (Some 12) (Some 80) (Some 1009)),
       raw_weather_list = Some [Some ''overcast''],
       raw_wind = Some (Wind_dict (Some 4) (Some 250)),
       raw_visibility = Some 10000 \<rparr>"

definition demo_outside :: "exn + int \<Rightarrow> int \<Rightarrow> outside" where
  "demo_outside ledger now =
     \<lparr> algod_account_info =
         (\<lambda>a. case ledger of Inl e \<Rightarrow> Inl e
               | Inr micro \<Rightarrow> Inr \<lparr> amount = micro, assets = None \<rparr>),
       open_meteo =
         (\<lambda>c. if c = ''London'' then Inr demo_london
               else if c = ''Atlantis''
               then Inl (HTTPException 404 (Detail_text ''City not found''))
               else Inl RequestException),
       openweather = (\<lambda>c. Inl RequestException),
       weatherapi = (\<lambda>c. Inl RequestException),
       utcnow = (\<lambda>k. now + int k) \<rparr>"

text \<open>The JSON the agent receives for a response of the route.\<close>

definition json_of_weather_data :: "WeatherData \<Rightarrow> json" where
  "json_of_weather_data d =
     JObj [(''city'', JStr (city d)), (''country'', JStr (country d)),
           (''temperature'', JNum (temperature d)), (''feels_like'', JNum (feels_like d)),
           (''humidity'', JNum (of_int (humidity d))), (''pressure'', JNum (pressure d)),
           (''description'', JStr (description d)), (''wind_speed'', JNum (wind_speed d)),
           (''wind_direction'', JNum (of_int (wind_direction d))),
           (''visibility'', JNum (of_int (visibility d))), (''uv_index'', JNull)]"

fun json_of_detail :: "detail \<Rightarrow> json" where
  "json_of_detail (Detail_text s) = JStr s"
| "json_of_detail (Detail_error ok cd msg det) =
     JObj [(''success'', JBool ok),
           (''error'',
            JObj ([(''code'', JStr cd), (''message'', JStr msg)] @
                  (case det of
                     None \<Rightarrow> []
                   | Some x \<Rightarrow>
                       [(''details'',
                         JObj [(''wallet_address'', JStr (wallet_address x)),
                               (''required_token_type'', JStr (required_token_type x)),
                               (''marketplace_info'',
                                JObj [(''contract_id'', JNum (of_int (contract_id x))),
                                      (''token_price_algo'', JNum (of_int (token_price_algo x))),
                                      (''purchase_endpoint'', JStr (purchase_endpoint x))])])])))]"

fun wire :: "response \<Rightarrow> http_response" where
  "wire (Response_200 r) =
     \<lparr> status_code = 200,
       json_body =
         Inr (JObj [(''success'', JBool (success r)), (''data'', json_of_weather_data (data r)),
                    (''token_info'',
                     JObj [(''token_id'', JNum (of_int (token_id (token_info r)))),
                           (''remaining_time_seconds'',
                            JNum (of_int (remaining_time_seconds (token_info r)))),
                           (''expires_at'', JNum (of_int (expires_at (token_info r))))]),
                    (''timestamp'', JNum (of_int (timestamp r)))]) \<rparr>"
| "wire (JSONResponse status (Content_detail d)) =
     \<lparr> status_code = status, json_body = Inr (json_of_detail d) \<rparr>"
| "wire (JSONResponse status (Content_error s)) =
     \<lparr> status_code = status, json_body = Inr (JObj [(''error'', JStr s)]) \<rparr>"

text \<open>
  The world of the closed system is the agent's balance in microAlgos. A payment takes
  its amount and a fee of 1000 microAlgos and is confirmed in round 1.
\<close>

definition demo_env :: "int env" where
  "demo_env =
     \<lparr> account_info_call = (\<lambda>a w. (Inr \<lparr> amount = w, assets = None \<rparr>, w)),
       requests_get =
         (\<lambda>c a w. (Inr (wire (fst (get_weather demo_config (demo_outside (Inr w) 0) c a))), w)),
       suggested_params = (\<lambda>w. (Inr \<lparr> min_fee = 1000, first_round = 1, last_round = 1001 \<rparr>, w)),
       send_transaction = (\<lambda>tx w. (Inr ''TXID'', w - amt (transaction tx) - 1000)),
       wait_for_confirmation = (\<lambda>txid n w. (Inr (Some 1), w)),
       sleep = (\<lambda>n w. w) \<rparr>"

definition demo_wallet :: string where
  "demo_wallet = ''AGENTWALLETAAAAAAAAAAAAAAAAAAAAAAAAAAAAAAAAAAAAAAAAAAAAAAA''"

definition demo_agent :: "int \<Rightarrow> int run" where
  "demo_agent micro = WeatherAgent_init demo_env demo_wallet ''key'' 0 0 micro"


text \<open>
  Whether the request \<^verbatim>\<open>get_weather\<close> is about to send gets a response with status
  200, and how the counters of two states compare when the second is a later one.
\<close>

definition responded_200 :: "'w env \<Rightarrow> string \<Rightarrow> 'w run \<Rightarrow> bool" where
  "responded_200 env c self =
     (case fst (requests_get env c (address self) (world self)) of
        Inl e \<Rightarrow> False
      | Inr response \<Rightarrow> status_code response = 200)"

definition counters_advance :: "'w run \<Rightarrow> 'w run \<Rightarrow> bool" where
  "counters_advance self self' =
     (request_count self \<le> request_count self' \<and>
      successful_requests self \<le> successful_requests self' \<and>
      tokens_purchased self \<le> tokens_purchased self' \<and>
      successful_requests self' - successful_requests self
        \<le> request_count self' - request_count self)"

section \<open>The backend's admission decision\<close>

lemma balance_threshold_micro: "(5 \<le> balance_algos_of info) = (5000000 \<le> amount info)"
  by (simp add: balance_algos_of_def le_divide_eq)

lemma demo_wallet_valid: "validate_wallet_address demo_config demo_wallet"
  by (simp add: validate_wallet_address_def demo_config_def demo_wallet_def)

text \<open>
  Claim C1. Whenever the balance query for an account succeeds,
  \<^verbatim>\<open>check_token_ownership\<close> returns true exactly when the balance is at least 5 ALGO
  (5,000,000 microAlgos): false for every balance below 5, true for every balance of 5
  or more. No exception is raised inside on that path.
\<close>

theorem check_token_ownership_threshold:
  assumes "algod_account_info out wallet = Inr info"
  shows "check_token_ownership_try out wallet = Inr (5 \<le> balance_algos_of info)
       \<and> fst (check_token_ownership out wallet) = (5 \<le> balance_algos_of info)
       \<and> (5 \<le> balance_algos_of info) = (5000000 \<le> amount info)"
  using assms
  by (simp add: check_token_ownership_def check_token_ownership_try_def balance_threshold_micro)

theorem check_token_ownership_threshold_witness:
  "fst (check_token_ownership (demo_outside (Inr 5000000) 0) demo_wallet) = True
   \<and> fst (check_token_ownership (demo_outside (Inr 4999999) 0) demo_wallet) = False"
proof -
  have a: "algod_account_info (demo_outside (Inr 5000000) 0) demo_wallet
             = Inr \<lparr> amount = 5000000, assets = None \<rparr>"
    by (simp add: demo_outside_def)
  have b: "algod_account_info (demo_outside (Inr 4999999) 0) demo_wallet
             = Inr \<lparr> amount = 4999999, assets = None \<rparr>"
    by (simp add: demo_outside_def)
  show ?thesis
    using check_token_ownership_threshold [OF a] check_token_ownership_threshold [OF b]
    by simp
qed

text \<open>
  Claim C2. For a well-formed wallet, when the ledger's balance query raises, the
  exception stays inside \<^verbatim>\<open>check_token_ownership\<close>, which returns false, and the
  route answers 403 with the code \<^verbatim>\<open>INVALID_TOKEN\<close>, after the one ledger call and
  with no upstream call: never the 200 body.
\<close>

theorem verifier_fails_closed:
  assumes "validate_wallet_address cfg wallet"
    and "algod_account_info out wallet = Inl e"
  shows "check_token_ownership_try out wallet = Inl e
       \<and> check_token_ownership out wallet = (False, [Ledger_account_info wallet])
       \<and> get_weather cfg out c wallet =
           (JSONResponse 403 (Content_detail (invalid_token_detail cfg wallet)),
            [Ledger_account_info wallet])
       \<and> code (invalid_token_detail cfg wallet) = ''INVALID_TOKEN''"
  using assms
  by (simp add: check_token_ownership_def check_token_ownership_try_def get_weather_def
      invalid_token_detail_def)

theorem verifier_fails_closed_witness:
  "get_weather demo_config (demo_outside (Inl (Exception ''timeout'')) 0) ''London'' demo_wallet =
     (JSONResponse 403 (Content_detail (invalid_token_detail demo_config demo_wallet)),
      [Ledger_account_info demo_wallet])"
proof -
  have a: "algod_account_info (demo_outside (Inl (Exception ''timeout'')) 0) demo_wallet
             = Inl (Exception ''timeout'')"
    by (simp add: demo_outside_def)
  show ?thesis
    using verifier_fails_closed [OF demo_wallet_valid a] by simp
qed

text \<open>
  Claim C3. For a wallet that fails the address validation, the route answers 400 with
  the code \<^verbatim>\<open>INVALID_WALLET\<close> and its log of calls is empty: no ledger query and no
  upstream request was made.
\<close>

theorem malformed_identity_denied:
  assumes "\<not> validate_wallet_address cfg wallet"
  shows "get_weather cfg out c wallet =
           (JSONResponse 400 (Content_detail invalid_wallet_detail), [])
       \<and> code invalid_wallet_detail = ''INVALID_WALLET''"
  using assms by (simp add: get_weather_def invalid_wallet_detail_def)

theorem malformed_identity_denied_witness:
  "get_weather demo_config (demo_outside (Inr 6000000) 0) ''London'' ''bad'' =
     (JSONResponse 400 (Content_detail invalid_wallet_detail), [])"
proof -
  have a: "\<not> validate_wallet_address demo_config ''bad''"
    by (simp add: validate_wallet_address_def demo_config_def)
  show ?thesis
    using malformed_identity_denied [OF a] by simp
qed

subsection \<open>The decision depends on the ledger and the upstream only\<close>

lemma check_token_ownership_cong:
  "algod_account_info out1 wallet = algod_account_info out2 wallet \<Longrightarrow>
   check_token_ownership out1 wallet = check_token_ownership out2 wallet"
  by (simp add: check_token_ownership_def check_token_ownership_try_def)

lemma get_weather_data_cong:
  "open_meteo out1 c = open_meteo out2 c \<Longrightarrow> openweather out1 c = openweather out2 c \<Longrightarrow>
   weatherapi out1 c = weatherapi out2 c \<Longrightarrow>
   get_weather_data cfg out1 c = get_weather_data cfg out2 c"
  by (simp add: get_weather_data_def get_weather_from_open_meteo_def
      get_weather_from_openweather_def get_weather_from_weatherapi_def)

lemma fetch_weather_cong:
  assumes "get_weather_data cfg out1 c = get_weather_data cfg out2 c"
  shows "decision_of (fst (fetch_weather cfg out1 c)) = decision_of (fst (fetch_weather cfg out2 c))
       \<and> snd (fetch_weather cfg out1 c) = snd (fetch_weather cfg out2 c)"
  using assms
  by (simp add: fetch_weather_def split: prod.splits sum.splits exn.splits)

text \<open>
  The whole 200 body is not a function of the ledger and the upstream: it carries two
  readings of the clock, so two calls at different times differ in those fields.
\<close>

lemma get_weather_reads_clock:
  "fst (get_weather demo_config (demo_outside (Inr 6000000) 0) ''London'' demo_wallet) \<noteq>
   fst (get_weather demo_config (demo_outside (Inr 6000000) 5000000) ''London'' demo_wallet)"
  by (simp add: get_weather_def validate_wallet_address_def demo_wallet_def
      check_token_ownership_def check_token_ownership_try_def balance_algos_of_def
      demo_outside_def fetch_weather_def get_weather_data_def get_weather_from_open_meteo_def
      demo_config_def format_weather_data_def demo_london_def)

text \<open>
  Claim C8. Two calls of the route for the same city and wallet, made while the ledger
  answers the same for that wallet and the upstream answers the same for that city,
  return equal decisions (status and error body, or weather data, token id and validity
  seconds) and make the same calls. The route keeps no state between calls; the clock may
  differ between the two.
\<close>

theorem get_weather_idempotent:
  assumes "algod_account_info out1 wallet = algod_account_info out2 wallet"
    and "open_meteo out1 c = open_meteo out2 c"
    and "openweather out1 c = openweather out2 c"
    and "weatherapi out1 c = weatherapi out2 c"
  shows "decision_of (fst (get_weather cfg out1 c wallet)) =
         decision_of (fst (get_weather cfg out2 c wallet))
       \<and> snd (get_weather cfg out1 c wallet) = snd (get_weather cfg out2 c wallet)"
proof -
  have v: "check_token_ownership out1 wallet = check_token_ownership out2 wallet"
    using assms(1) by (rule check_token_ownership_cong)
  have d: "get_weather_data cfg out1 c = get_weather_data cfg out2 c"
    using assms(2-4) by (rule get_weather_data_cong)
  note f = fetch_weather_cong [OF d]
  show ?thesis
    using v f by (auto simp: get_weather_def split: prod.splits)
qed

theorem get_weather_idempotent_witness:
  "decision_of (fst (get_weather demo_config (demo_outside (Inr 6000000) 0) ''London'' demo_wallet)) =
   decision_of (fst (get_weather demo_config (demo_outside (Inr 6000000) 5000000) ''London'' demo_wallet))"
proof -
  have a: "algod_account_info (demo_outside (Inr 6000000) 0) demo_wallet =
           algod_account_info (demo_outside (Inr 6000000) 5000000) demo_wallet"
    by (simp add: demo_outside_def)
  have b: "open_meteo (demo_outside (Inr 6000000) 0) ''London'' =
           open_meteo (demo_outside (Inr 6000000) 5000000) ''London''"
    by (simp add: demo_outside_def)
  have c: "openweather (demo_outside (Inr 6000000) 0) ''London'' =
           openweather (demo_outside (Inr 6000000) 5000000) ''London''"
    by (simp add: demo_outside_def)
  have d: "weatherapi (demo_outside (Inr 6000000) 0) ''London'' =
           weatherapi (demo_outside (Inr 6000000) 5000000) ''London''"
    by (simp add: demo_outside_def)
  show ?thesis
    using get_weather_idempotent [OF a b c d, of demo_config] by simp
qed

section \<open>The marketplace contract\<close>

lemma unat_succ: "unat (x :: 64 word) + 1 < 2 ^ 64 \<Longrightarrow> unat (x + 1) = unat x + 1"
  using unat_add_lem [of x 1] by simp

lemma call_method_frame:
  assumes "call_method m self = Inr (r, self')"
  shows "token_price self' = token_price self \<and> token_duration self' = token_duration self
       \<and> is_active self' = is_active self"
  using assms
  by (cases m)
    (auto simp: get_token_price_def get_weather_asa_id_def set_weather_asa_id_def
      get_token_duration_def record_token_sale_def get_total_sales_def is_contract_active_def
      get_contract_info_def Let_def split: if_splits)

lemma contract_reachable_constants:
  "contract_reachable self \<Longrightarrow>
   token_price self = 10000000 \<and> token_duration self = 3600 \<and> is_active self"
proof (induction rule: contract_reachable.induct)
  case created
  show ?case by (simp add: WeatherMarketplace_init_def)
next
  case (called self m r self')
  then show ?case using call_method_frame [of m self r self'] by simp
qed

lemma call_method_writes:
  assumes "call_method m self = Inr (r, self')"
  shows "(weather_asa_id self' \<noteq> weather_asa_id self \<longrightarrow> (\<exists>a. m = Set_weather_asa_id a))
       \<and> (total_tokens_sold self' \<noteq> total_tokens_sold self \<longrightarrow> m = Record_token_sale)"
  using assms
  by (cases m)
    (auto simp: get_token_price_def get_weather_asa_id_def set_weather_asa_id_def
      get_token_duration_def record_token_sale_def get_total_sales_def is_contract_active_def
      get_contract_info_def Let_def split: if_splits)

lemma record_token_sale_counts:
  assumes "call_method Record_token_sale self = Inr (r, self')"
  shows "unat (total_tokens_sold self') = unat (total_tokens_sold self) + 1
       \<and> r = ARC4UInt64 (total_tokens_sold self')
       \<and> weather_asa_id self' = weather_asa_id self"
  using assms
  by (auto simp: record_token_sale_def Let_def unat_succ split: if_splits)

lemma set_weather_asa_id_sets:
  assumes "call_method (Set_weather_asa_id a) self = Inr (r, self')"
  shows "weather_asa_id self' = a \<and> total_tokens_sold self' = total_tokens_sold self"
  using assms by (auto simp: set_weather_asa_id_def)

lemma record_token_sale_succeeds:
  "unat (total_tokens_sold self) + 1 < 2 ^ 64 \<Longrightarrow>
   \<exists>r self'. call_method Record_token_sale self = Inr (r, self')"
  by (simp add: record_token_sale_def Let_def)

text \<open>
  Claim C10. In every state the contract reaches, \<^verbatim>\<open>token_price\<close> is 10,000,000,
  \<^verbatim>\<open>token_duration\<close> is 3600 and \<^verbatim>\<open>is_active\<close> is true, and no method writes any
  of the three. A call that changes \<^verbatim>\<open>weather_asa_id\<close> is a call of
  \<^verbatim>\<open>set_weather_asa_id\<close>, a call that changes \<^verbatim>\<open>total_tokens_sold\<close> is a call of
  \<^verbatim>\<open>record_token_sale\<close>, and that method adds exactly 1 and returns the new count. It
  succeeds whenever the count is below 2^64 - 1; \<^verbatim>\<open>set_weather_asa_id\<close> stores its
  argument.
\<close>

theorem marketplace_frame:
  "(contract_reachable self \<longrightarrow>
      token_price self = 10000000 \<and> token_duration self = 3600 \<and> is_active self = True)
   \<and> (call_method m self = Inr (r, self') \<longrightarrow>
        token_price self' = token_price self
        \<and> token_duration self' = token_duration self
        \<and> is_active self' = is_active self
        \<and> (weather_asa_id self' \<noteq> weather_asa_id self \<longrightarrow> (\<exists>a. m = Set_weather_asa_id a))
        \<and> (total_tokens_sold self' \<noteq> total_tokens_sold self \<longrightarrow> m = Record_token_sale)
        \<and> (m = Record_token_sale \<longrightarrow>
              unat (total_tokens_sold self') = unat (total_tokens_sold self) + 1
              \<and> r = ARC4UInt64 (total_tokens_sold self'))
        \<and> (\<forall>a. m = Set_weather_asa_id a \<longrightarrow> weather_asa_id self' = a))
   \<and> (unat (total_tokens_sold self) + 1 < 2 ^ 64 \<longrightarrow>
        (\<exists>r' self''. call_method Record_token_sale self = Inr (r', self'')))"
  using contract_reachable_constants [of self] call_method_frame [of m self r self']
    call_method_writes [of m self r self'] record_token_sale_counts [of self r self']
    record_token_sale_succeeds [of self] set_weather_asa_id_sets [of _ self r self']
  by blast

theorem marketplace_frame_witness:
  "contract_reachable WeatherMarketplace_init
   \<and> call_method Record_token_sale WeatherMarketplace_init =
       Inr (ARC4UInt64 1, WeatherMarketplace_init\<lparr>total_tokens_sold := 1\<rparr>)
   \<and> token_price (WeatherMarketplace_init\<lparr>total_tokens_sold := 1\<rparr>) = 10000000
   \<and> unat (total_tokens_sold (WeatherMarketplace_init\<lparr>total_tokens_sold := 1\<rparr>)) =
       unat (total_tokens_sold WeatherMarketplace_init) + 1"
proof -
  have i: "contract_reachable WeatherMarketplace_init"
    by (rule contract_reachable.created)
  have c: "call_method Record_token_sale WeatherMarketplace_init =
           Inr (ARC4UInt64 1, WeatherMarketplace_init\<lparr>total_tokens_sold := 1\<rparr>)"
    by (simp add: record_token_sale_def WeatherMarketplace_init_def Let_def)
  show ?thesis
    using i c
      marketplace_frame [of WeatherMarketplace_init Record_token_sale "ARC4UInt64 1"
        "WeatherMarketplace_init\<lparr>total_tokens_sold := 1\<rparr>"]
    by simp
qed

section \<open>The agent: counters and the log of calls\<close>

lemma purchase_results_append:
  "purchase_results (xs @ ys) = purchase_results xs @ purchase_results ys"
  by (induction xs rule: purchase_results.induct) simp_all


lemma counters_advance_refl: "counters_advance self self"
  by (simp add: counters_advance_def)

lemma counters_advance_trans:
  "counters_advance a b \<Longrightarrow> counters_advance b c \<Longrightarrow> counters_advance a c"
  by (auto simp: counters_advance_def)

lemma logged_fields:
  "request_count (logged ev w self) = request_count self"
  "successful_requests (logged ev w self) = successful_requests self"
  "tokens_purchased (logged ev w self) = tokens_purchased self"
  "balance_algos (logged ev w self) = balance_algos self"
  "address (logged ev w self) = address self"
  "private_key (logged ev w self) = private_key self"
  "world (logged ev w self) = w"
  "calls (logged ev w self) = calls self @ [ev]"
  by (simp_all add: logged_def)

lemma time_sleep_fields:
  "request_count (time_sleep env n self) = request_count self"
  "successful_requests (time_sleep env n self) = successful_requests self"
  "tokens_purchased (time_sleep env n self) = tokens_purchased self"
  "address (time_sleep env n self) = address self"
  "calls (time_sleep env n self) = calls self @ [Call_sleep n]"
  by (simp_all add: time_sleep_def logged_fields)

lemma update_account_info_fields:
  "request_count (update_account_info env self) = request_count self"
  "successful_requests (update_account_info env self) = successful_requests self"
  "tokens_purchased (update_account_info env self) = tokens_purchased self"
  "address (update_account_info env self) = address self"
  "calls (update_account_info env self) = calls self @ [Call_account_info (address self)]"
  by (simp_all add: update_account_info_def logged_fields split: prod.splits sum.splits)

lemma wait_before_next_fields:
  "request_count (wait_before_next env n a self) = request_count self"
  "successful_requests (wait_before_next env n a self) = successful_requests self"
  "tokens_purchased (wait_before_next env n a self) = tokens_purchased self"
  "address (wait_before_next env n a self) = address self"
  "purchase_results (calls (wait_before_next env n a self)) = purchase_results (calls self)"
  by (simp_all add: wait_before_next_def time_sleep_fields purchase_results_append)


lemma agent_get_weather_request_count:
  "request_count (snd (agent_get_weather env c self)) = request_count self + 1"
  by (simp add: agent_get_weather_def Let_def logged_fields split: prod.splits sum.splits)

lemma agent_get_weather_successful_requests:
  "successful_requests (snd (agent_get_weather env c self)) =
     successful_requests self + (if responded_200 env c self then 1 else 0)"
  by (simp add: agent_get_weather_def responded_200_def Let_def logged_fields
      split: prod.splits sum.splits)

lemma agent_get_weather_fields:
  "tokens_purchased (snd (agent_get_weather env c self)) = tokens_purchased self"
  "address (snd (agent_get_weather env c self)) = address self"
  "calls (snd (agent_get_weather env c self)) = calls self @ [Call_requests_get c (address self)]"
  by (simp_all add: agent_get_weather_def Let_def logged_fields split: prod.splits sum.splits)

lemma agent_get_weather_data:
  assumes "fst (agent_get_weather env c self) = Some d"
  shows "responded_200 env c self \<and> truthy d"
  using assms
  by (cases d)
    (auto simp: agent_get_weather_def responded_200_def Let_def
      split: prod.splits sum.splits if_splits)


lemma is_truthy_get_weather:
  "is_truthy (fst (agent_get_weather env c self)) = (fst (agent_get_weather env c self) \<noteq> None)"
  using agent_get_weather_data [of env c self]
  by (cases "fst (agent_get_weather env c self)") auto

lemma agent_get_weather_advance: "counters_advance self (snd (agent_get_weather env c self))"
  by (simp add: counters_advance_def agent_get_weather_request_count
      agent_get_weather_successful_requests agent_get_weather_fields)

lemma purchase_body_fields:
  "request_count (snd (purchase_body env self)) = request_count self"
  "successful_requests (snd (purchase_body env self)) = successful_requests self"
  "address (snd (purchase_body env self)) = address self"
  "tokens_purchased (snd (purchase_body env self)) =
     tokens_purchased self + (if fst (purchase_body env self) then 1 else 0)"
  by (simp_all add: purchase_body_def Let_def logged_fields time_sleep_fields
      update_account_info_fields split: prod.splits sum.splits option.splits)





lemma purchase_weather_token_fields:
  "fst (purchase_weather_token env self) = fst (purchase_body env self)"
  "request_count (snd (purchase_weather_token env self)) = request_count self"
  "successful_requests (snd (purchase_weather_token env self)) = successful_requests self"
  "address (snd (purchase_weather_token env self)) = address self"
  "tokens_purchased (snd (purchase_weather_token env self)) =
     tokens_purchased self + (if fst (purchase_weather_token env self) then 1 else 0)"
  by (simp_all add: purchase_weather_token_def logged_fields purchase_body_fields
      case_prod_beta)


lemma purchase_weather_token_advance:
  "counters_advance self (snd (purchase_weather_token env self))"
  by (simp add: counters_advance_def purchase_weather_token_fields)

lemma update_account_info_advance: "counters_advance self (update_account_info env self)"
  by (simp add: counters_advance_def update_account_info_fields)

lemma time_sleep_advance: "counters_advance self (time_sleep env n self)"
  by (simp add: counters_advance_def time_sleep_fields)

lemma wait_before_next_advance: "counters_advance self (wait_before_next env n a self)"
  by (simp add: counters_advance_def wait_before_next_fields)




text \<open>
  The check is \<^verbatim>\<open>self.balance_algos < 1.1\<close>: with exactly 1.1 ALGO the purchase goes
  on and the payment is submitted.
\<close>

lemma purchase_at_threshold_submits:
  "fst (purchase_weather_token demo_env (demo_agent 1100000)) = True
   \<and> world (snd (purchase_weather_token demo_env (demo_agent 1100000))) = 99000"
  by code_simp

text \<open>
  Claim C6, as the code has it. It fails as stated: an acquisition attempt that does not
  end in a confirmed transaction leaves \<^verbatim>\<open>tokens_purchased\<close> as it was.
\<close>

theorem failed_purchase_not_counted_counterexample:
  "fst (purchase_weather_token demo_env (demo_agent 500000)) = False
   \<and> purchase_results
       (new_calls (demo_agent 500000) (snd (purchase_weather_token demo_env (demo_agent 500000))))
     = [False]
   \<and> tokens_purchased (snd (purchase_weather_token demo_env (demo_agent 500000)))
     = tokens_purchased (demo_agent 500000)"
  by code_simp

text \<open>
  Claim C6, amended. Every call of \<^verbatim>\<open>get_weather\<close> adds 1 to \<^verbatim>\<open>request_count\<close>,
  whatever the outcome; a call of \<^verbatim>\<open>purchase_weather_token\<close> adds 1 to
  \<^verbatim>\<open>tokens_purchased\<close> when it returns True (the payment was confirmed) and leaves it
  unchanged when it returns False.
\<close>

theorem stats_counters:
  "request_count (snd (agent_get_weather env c self)) = request_count self + 1
   \<and> tokens_purchased (snd (purchase_weather_token env self)) =
       tokens_purchased self + (if fst (purchase_weather_token env self) then 1 else 0)"
  by (simp add: agent_get_weather_request_count purchase_weather_token_fields)

theorem stats_counters_witness:
  "request_count (snd (agent_get_weather demo_env ''Paris'' (demo_agent 6000000))) = 1
   \<and> tokens_purchased (snd (purchase_weather_token demo_env (demo_agent 6000000))) = 1"
proof -
  have a: "request_count (demo_agent 6000000) = 0" by code_simp
  have b: "tokens_purchased (demo_agent 6000000) = 0" by code_simp
  have c: "fst (purchase_weather_token demo_env (demo_agent 6000000))" by code_simp
  show ?thesis
    using stats_counters [of demo_env "''Paris''" "demo_agent 6000000"] a b c by simp
qed

section \<open>The agent: the retry loop\<close>

lemma purchase_loop_failed:
  assumes "\<not> fst (purchase_weather_token env self)"
  shows "purchase_loop env c n (a # rest) self =
         purchase_loop env c n rest
           (wait_before_next env n a (snd (purchase_weather_token env self)))"
  using assms by (simp add: case_prod_beta)

lemma purchase_loop_granted:
  assumes "fst (purchase_weather_token env self)"
    and "fst (agent_get_weather env c (time_sleep env 2 (snd (purchase_weather_token env self))))
           \<noteq> None"
  shows "purchase_loop env c n (a # rest) self =
         agent_get_weather env c (time_sleep env 2 (snd (purchase_weather_token env self)))"
  using assms by (simp add: case_prod_beta is_truthy_get_weather)

lemma purchase_loop_denied:
  assumes "fst (purchase_weather_token env self)"
    and "fst (agent_get_weather env c (time_sleep env 2 (snd (purchase_weather_token env self))))
           = None"
  shows "purchase_loop env c n (a # rest) self =
         purchase_loop env c n rest
           (wait_before_next env n a
              (snd (agent_get_weather env c
                      (time_sleep env 2 (snd (purchase_weather_token env self))))))"
  using assms by (simp add: case_prod_beta is_truthy_get_weather)

lemma purchase_loop_advance:
  "counters_advance self (snd (purchase_loop env c n xs self))"
proof (induction xs arbitrary: self)
  case Nil
  show ?case by (simp add: counters_advance_refl)
next
  case (Cons a rest)
  let ?p = "purchase_weather_token env self"
  let ?g = "agent_get_weather env c (time_sleep env 2 (snd ?p))"
  have p: "counters_advance self (snd ?p)" by (rule purchase_weather_token_advance)
  have g: "counters_advance self (snd ?g)"
    by (rule counters_advance_trans [OF p
          counters_advance_trans [OF time_sleep_advance agent_get_weather_advance]])
  show ?case
  proof (cases "fst ?p")
    case False
    have "counters_advance self (wait_before_next env n a (snd ?p))"
      by (rule counters_advance_trans [OF p wait_before_next_advance])
    then show ?thesis
      using purchase_loop_failed [OF False] Cons.IH counters_advance_trans by metis
  next
    case True
    show ?thesis
    proof (cases "fst ?g = None")
      case False
      then show ?thesis using purchase_loop_granted [OF True False] g by simp
    next
      case denied: True
      have "counters_advance self (wait_before_next env n a (snd ?g))"
        by (rule counters_advance_trans [OF g wait_before_next_advance])
      then show ?thesis
        using purchase_loop_denied [OF True denied] Cons.IH counters_advance_trans by metis
    qed
  qed
qed



lemma autonomous_granted:
  assumes "fst (agent_get_weather env c (update_account_info env self)) \<noteq> None"
  shows "autonomous_weather_request env c n self =
         agent_get_weather env c (update_account_info env self)"
  using assms by (simp add: autonomous_weather_request_def case_prod_beta is_truthy_get_weather)

lemma autonomous_denied:
  assumes "fst (agent_get_weather env c (update_account_info env self)) = None"
  shows "autonomous_weather_request env c n self =
         purchase_loop env c n (py_range n)
           (snd (agent_get_weather env c (update_account_info env self)))"
  using assms by (simp add: autonomous_weather_request_def case_prod_beta is_truthy_get_weather)




lemma autonomous_advance:
  "counters_advance self (snd (autonomous_weather_request env c n self))"
proof -
  let ?f = "agent_get_weather env c (update_account_info env self)"
  have f: "counters_advance self (snd ?f)"
    by (rule counters_advance_trans [OF update_account_info_advance agent_get_weather_advance])
  show ?thesis
  proof (cases "fst ?f = None")
    case True
    show ?thesis
      unfolding autonomous_denied [OF True]
      by (rule counters_advance_trans [OF f purchase_loop_advance])
  next
    case False
    show ?thesis
      unfolding autonomous_granted [OF False] by (rule f)
  qed
qed

lemma run_demo_loop_advance: "counters_advance self (snd (run_demo_loop env n xs self))"
proof (induction xs arbitrary: self)
  case Nil
  show ?case by (simp add: counters_advance_refl)
next
  case (Cons x rest)
  obtain i c where x: "x = (i, c)" by (cases x)
  let ?a = "autonomous_weather_request env c 3 self"
  have a: "counters_advance self (snd ?a)" by (rule autonomous_advance)
  have s: "counters_advance self (if i < n then time_sleep env 3 (snd ?a) else snd ?a)"
    using a counters_advance_trans [OF a time_sleep_advance] by simp
  have "counters_advance self
          (snd (run_demo_loop env n rest (if i < n then time_sleep env 3 (snd ?a) else snd ?a)))"
    by (rule counters_advance_trans [OF s Cons.IH])
  then show ?case
    using a unfolding x by (auto simp: case_prod_beta split: sum.splits if_splits)
qed

lemma exec_op_advance: "counters_advance self (exec_op env op self)"
proof (cases op)
  case Op_update_account_info
  then show ?thesis by (simp add: update_account_info_advance)
next
  case (Op_get_weather c)
  then show ?thesis by (simp add: agent_get_weather_advance)
next
  case Op_purchase_weather_token
  then show ?thesis by (simp add: purchase_weather_token_advance)
next
  case (Op_autonomous_weather_request c n)
  then show ?thesis by (simp add: autonomous_advance)
next
  case (Op_run_demo cities)
  then show ?thesis by (simp add: run_demo_def Let_def run_demo_loop_advance)
next
  case Op_read_only
  then show ?thesis by (simp add: counters_advance_refl)
qed

lemma agent_reachable_counters:
  "agent_reachable env self \<Longrightarrow>
   0 \<le> successful_requests self \<and> successful_requests self \<le> request_count self"
proof (induction rule: agent_reachable.induct)
  case (constructed addr key app_id asa_id w)
  show ?case by (simp add: WeatherAgent_init_def update_account_info_fields)
next
  case (operated self op)
  then show ?case
    using exec_op_advance [of self env op] by (simp add: counters_advance_def)
next
  case (world_moved self w)
  then show ?case by simp
qed


text \<open>
  Claim C9. In every reachable state of an agent, \<^verbatim>\<open>successful_requests\<close> is at most
  \<^verbatim>\<open>request_count\<close>. No operation lowers either counter (and the world moving on
  writes neither). \<^verbatim>\<open>get_weather\<close> adds exactly 1 to \<^verbatim>\<open>request_count\<close> on every
  call, and adds 1 to \<^verbatim>\<open>successful_requests\<close> exactly when the response has status 200
  (otherwise it leaves it).
\<close>

theorem agent_counters_invariant:
  "(agent_reachable env self \<longrightarrow>
      0 \<le> successful_requests self \<and> successful_requests self \<le> request_count self)
   \<and> request_count self \<le> request_count (exec_op env op self)
   \<and> successful_requests self \<le> successful_requests (exec_op env op self)
   \<and> request_count (self\<lparr>world := w\<rparr>) = request_count self
   \<and> successful_requests (self\<lparr>world := w\<rparr>) = successful_requests self
   \<and> request_count (snd (agent_get_weather env c self)) = request_count self + 1
   \<and> successful_requests (snd (agent_get_weather env c self)) =
       successful_requests self + (if responded_200 env c self then 1 else 0)"
  using agent_reachable_counters [of env self] exec_op_advance [of self env op]
  by (simp add: counters_advance_def agent_get_weather_request_count
      agent_get_weather_successful_requests)

theorem agent_counters_invariant_witness:
  "agent_reachable demo_env (exec_op demo_env (Op_get_weather ''London'') (demo_agent 6000000))
   \<and> successful_requests (exec_op demo_env (Op_get_weather ''London'') (demo_agent 6000000))
       \<le> request_count (exec_op demo_env (Op_get_weather ''London'') (demo_agent 6000000))
   \<and> request_count (snd (agent_get_weather demo_env ''London'' (demo_agent 6000000))) = 1
   \<and> successful_requests (snd (agent_get_weather demo_env ''London'' (demo_agent 6000000))) = 1"
proof -
  have i: "agent_reachable demo_env (demo_agent 6000000)"
    unfolding demo_agent_def by (rule agent_reachable.constructed)
  have r: "agent_reachable demo_env
             (exec_op demo_env (Op_get_weather ''London'') (demo_agent 6000000))"
    using i by (rule agent_reachable.operated)
  have a: "request_count (demo_agent 6000000) = 0" by code_simp
  have b: "successful_requests (demo_agent 6000000) = 0" by code_simp
  have o: "responded_200 demo_env ''London'' (demo_agent 6000000)" by code_simp
  show ?thesis
    using r a b o
      agent_counters_invariant
        [of demo_env "exec_op demo_env (Op_get_weather ''London'') (demo_agent 6000000)"
          Op_read_only 0 "''London''"]
      agent_counters_invariant
        [of demo_env "demo_agent 6000000" Op_read_only 0 "''London''"]
    by simp
qed






end
